theory Spec2Isabelle
  imports Complex_Main
begin

section \<open>Cellar ventilation controller (controle\_ventilation\_cave.ino)\<close>

text \<open>
  The sketch reads a BME280 sensor, rounds the humidity to a multiple of 5, turns a stepper
  motor by the difference between the position of the new humidity and the position of the
  previous one, and shows a power percentage on a display.

  Numbers. Values of the C types \<open>int\<close> and \<open>long\<close> are integers of HOL, and the
  wrap-around of the machine is written out where a result can leave the range of its type.
  In the three arithmetic functions the only subtraction on an argument,
  \<open>h - MIN_RATE_POWER\<close>, is evaluated for \<open>50 < h < 80\<close> only, and every other value is a
  constant or a position between \<open>-1\<close> and \<open>6\<close>, so nothing wraps there. In \<open>loop\<close> the
  product \<open>round(humidite / 5) * 5\<close> of line 103 is a \<open>long\<close> of 32 bits and wraps; it is
  then narrowed to \<open>int\<close>, which has 32 bits on the target (the constant \<open>DELAY\<close>,
  1800000, is held in an \<open>int\<close>). The C type \<open>float\<close> is modelled by \<open>real\<close>: a
  reading is a real number, and a conversion from \<open>float\<close> to an integer type is modelled
  on the values that the target type holds (C leaves the others, NaN and the infinities
  undefined).
\<close>

subsection \<open>Constants (lines 34--44)\<close>

definition NB_STEPS :: int where "NB_STEPS = 6"
definition MIN_RATE_POWER :: int where "MIN_RATE_POWER = 50"
definition MAX_RATE_POWER :: int where "MAX_RATE_POWER = 80"
definition PERCENT_POWER_STEP :: real where "PERCENT_POWER_STEP = 1667 / 100"
definition MIN_POWER :: int where "MIN_POWER = 17"
definition ROTATION_MIN :: int where "ROTATION_MIN = 0"
definition ROTATION_MAX :: int where "ROTATION_MAX = 990"
definition ROTATION_STEP :: int where "ROTATION_STEP = 165"
definition STEPS_PER_REVOLUTION :: int where "STEPS_PER_REVOLUTION = 100"
definition MOTOR_SPEED :: int where "MOTOR_SPEED = 100"
definition DELAY :: int where "DELAY = 1800000"

lemmas constants_defs =
  NB_STEPS_def MIN_RATE_POWER_def MAX_RATE_POWER_def PERCENT_POWER_STEP_def MIN_POWER_def
  ROTATION_MIN_def ROTATION_MAX_def ROTATION_STEP_def STEPS_PER_REVOLUTION_def
  MOTOR_SPEED_def DELAY_def

subsection \<open>C arithmetic used by the sketch\<close>

text \<open>Division of two \<open>int\<close>s in C truncates towards zero.\<close>

definition c_div :: "int \<Rightarrow> int \<Rightarrow> int" where
  "c_div a b = sgn a * sgn b * (\<bar>a\<bar> div \<bar>b\<bar>)"

text \<open>Conversion of a floating-point value to an integer type drops the fractional part.\<close>

definition float_to_int :: "real \<Rightarrow> int" where
  "float_to_int x = (if 0 \<le> x then \<lfloor>x\<rfloor> else \<lceil>x\<rceil>)"

text \<open>
  A \<open>long\<close> has 32 bits; a result outside its range is reduced modulo \<open>2^32\<close> into it.
  Narrowing a \<open>long\<close> to an \<open>int\<close> of 32 bits does the same.
\<close>

definition LONG_MIN :: int where "LONG_MIN = - 2147483648"
definition LONG_MAX :: int where "LONG_MAX = 2147483647"

definition wrap_long :: "int \<Rightarrow> int" where
  "wrap_long n = (n + 2147483648) mod 4294967296 - 2147483648"

definition long_to_int :: "int \<Rightarrow> int" where
  "long_to_int n = (n + 2147483648) mod 4294967296 - 2147483648"

text \<open>
  \<open>round\<close> is the macro of the Arduino core,
  \<^verbatim>\<open>#define round(x) ((x)>=0?(long)((x)+0.5):(long)((x)-0.5))\<close>
  (cores that take \<open>round\<close> from the C library round halves away from zero as well).
  An integer argument is converted to floating point by the addition.
\<close>

definition arduino_round :: "real \<Rightarrow> int" where
  "arduino_round x = (if 0 \<le> x then float_to_int (x + 1 / 2) else float_to_int (x - 1 / 2))"

subsection \<open>State and collaborators\<close>

text \<open>The only global variable that changes is \<open>h_avant\<close> (line 50), initially \<open>-1\<close>.\<close>

record globals =
  h_avant :: int

definition initial_globals :: globals where
  "initial_globals = \<lparr>h_avant = - 1\<rparr>"

text \<open>One set of sensor answers, as returned by the three \<open>bme.read...\<close> calls of a cycle.\<close>

record bme280 =
  readTemperature :: real
  readHumidity :: real
  readPressure :: real

text \<open>What a cycle does to the outside world, in program order.\<close>

datatype event =
    ClearDisplay
  | AffichageEcranOLED real real real int
  | StepperStep int
  | SerialPrintln string
  | DelayMs int

subsection \<open>positionMoteur (lines 124--142)\<close>

definition positionMoteur :: "int \<Rightarrow> int" where
  "positionMoteur h =
     (if h < 0 then - 1
      else if h \<le> MIN_RATE_POWER then 0
      else if h \<ge> MAX_RATE_POWER then NB_STEPS
      else arduino_round (of_int (c_div (h - MIN_RATE_POWER) 5)))"

subsection \<open>rotationMoteur (lines 144--158)\<close>

definition rotationMoteur :: "globals \<Rightarrow> int \<Rightarrow> int" where
  "rotationMoteur g h =
     (let pos_h = positionMoteur h;
          pos_ha = positionMoteur (h_avant g);
          delta_pos = (if pos_h \<ge> 0 \<and> pos_ha \<ge> 0 then pos_h - pos_ha else 0)
      in - delta_pos)"

subsection \<open>puissanceMoteur (lines 160--175)\<close>

definition puissanceMoteur :: "int \<Rightarrow> int" where
  "puissanceMoteur h =
     (if h \<le> MIN_RATE_POWER then MIN_POWER
      else if h \<ge> MAX_RATE_POWER then 100
      else arduino_round (of_int (c_div (h - MIN_RATE_POWER) 5) * PERCENT_POWER_STEP))"

subsection \<open>loop (lines 88--121)\<close>

text \<open>
  One call of \<open>loop\<close>: the events it causes and the globals it leaves. The first branch
  stores the reading itself, converted to \<open>int\<close>; the second stores the rounded value,
  a \<open>long\<close> that is narrowed to \<open>int\<close> where it is passed to \<open>rotationMoteur\<close> and
  \<open>puissanceMoteur\<close> and where it is stored in \<open>h_avant\<close>.
\<close>

definition loop :: "bme280 \<Rightarrow> globals \<Rightarrow> event list \<times> globals" where
  "loop bme g =
     (let temperature = readTemperature bme;
          humidite = readHumidity bme;
          pression = readPressure bme / 100
      in if h_avant g = - 1
         then ([ClearDisplay], g\<lparr>h_avant := float_to_int humidite\<rparr>)
         else
           (let h = wrap_long (arduino_round (humidite / 5) * 5);
                r = rotationMoteur g (long_to_int h);
                p = puissanceMoteur (long_to_int h)
            in ([AffichageEcranOLED temperature humidite pression p,
                 StepperStep (r * ROTATION_STEP),
                 SerialPrintln [],
                 DelayMs DELAY],
                g\<lparr>h_avant := long_to_int h\<rparr>)))"

text \<open>The rounding of line 103 on its own: the value that \<open>h\<close> receives.\<close>

definition quantize :: "real \<Rightarrow> int" where
  "quantize humidite = wrap_long (arduino_round (humidite / 5) * 5)"

text \<open>The stepper commands among the events of a cycle.\<close>

fun stepper_steps :: "event list \<Rightarrow> int list" where
  "stepper_steps [] = []"
| "stepper_steps (StepperStep n # es) = n # stepper_steps es"
| "stepper_steps (_ # es) = stepper_steps es"

subsection \<open>Vocabulary of the specification\<close>

text \<open>The loop is in its first-cycle state exactly while \<open>h_avant\<close> holds \<open>-1\<close> (line 96).\<close>

definition uninitialized :: "globals \<Rightarrow> bool" where
  "uninitialized g = (h_avant g = - 1)"

text \<open>
  The position as section 4.2 of the specification words it, with the quotient
  \<open>(h - LOW_THRESHOLD) / STEP_WIDTH\<close> taken in the reals and then rounded to the nearest
  integer. The quotient of an integer by 5 is never halfway between two integers, so every
  rounding rule for halves gives the same value. It is compared with \<open>positionMoteur\<close>
  below and used nowhere else.
\<close>

definition position_spec :: "int \<Rightarrow> int" where
  "position_spec h =
     (if h < 0 then - 1
      else if h \<le> 50 then 0
      else if h \<ge> 80 then 6
      else round ((of_int h - 50) / 5 :: real))"

section \<open>Basic facts\<close>

lemma c_div_nonneg: "0 \<le> a \<Longrightarrow> 0 < b \<Longrightarrow> c_div a b = a div b"
  by (cases "a = 0") (simp_all add: c_div_def)

lemma arduino_round_of_int: "arduino_round (of_int k) = k"
proof (cases "0 \<le> k")
  case True
  have "\<lfloor>of_int k + (1 / 2 :: real)\<rfloor> = k" by linarith
  with True show ?thesis by (simp add: arduino_round_def float_to_int_def)
next
  case False
  have "\<lceil>of_int k - (1 / 2 :: real)\<rceil> = k" by linarith
  with False show ?thesis by (simp add: arduino_round_def float_to_int_def)
qed

lemma positionMoteur_cases:
  "positionMoteur h =
     (if h < 0 then - 1 else if h \<le> 50 then 0 else if 80 \<le> h then 6 else (h - 50) div 5)"
  by (simp add: positionMoteur_def constants_defs c_div_nonneg arduino_round_of_int)

lemma power_of_step:
  "arduino_round (of_int 0 * PERCENT_POWER_STEP) = 0"
  "arduino_round (of_int 1 * PERCENT_POWER_STEP) = 17"
  "arduino_round (of_int 2 * PERCENT_POWER_STEP) = 33"
  "arduino_round (of_int 3 * PERCENT_POWER_STEP) = 50"
  "arduino_round (of_int 4 * PERCENT_POWER_STEP) = 67"
  "arduino_round (of_int 5 * PERCENT_POWER_STEP) = 83"
  by (simp_all add: arduino_round_def float_to_int_def PERCENT_POWER_STEP_def)

lemma puissanceMoteur_mid:
  assumes "50 < h" "h < 80"
  shows "puissanceMoteur h = arduino_round (of_int ((h - 50) div 5) * PERCENT_POWER_STEP)"
  using assms
  by (simp add: puissanceMoteur_def MIN_RATE_POWER_def MAX_RATE_POWER_def c_div_nonneg)

text \<open>The power as a step function of the humidity: the band 51..54 falls to 0.\<close>

lemma puissanceMoteur_bands:
  "puissanceMoteur h =
     (if h \<le> 50 then 17 else if h < 55 then 0 else if h < 60 then 17 else if h < 65 then 33
      else if h < 70 then 50 else if h < 75 then 67 else if h < 80 then 83 else 100)"
proof (cases "50 < h \<and> h < 80")
  case False
  then show ?thesis by (auto simp add: puissanceMoteur_def constants_defs)
next
  case True
  then have k: "(h - 50) div 5 \<in> {0, 1, 2, 3, 4, 5}" by auto
  have m: "puissanceMoteur h = arduino_round (of_int ((h - 50) div 5) * PERCENT_POWER_STEP)"
    using True by (simp add: puissanceMoteur_mid)
  from k True show ?thesis
    unfolding m using power_of_step by (elim insertE emptyE) (simp_all, presburger+)
qed

lemma wrap_long_id:
  assumes "LONG_MIN \<le> n" "n \<le> LONG_MAX"
  shows "wrap_long n = n"
proof -
  from assms have "0 \<le> n + 2147483648" "n + 2147483648 < 4294967296"
    by (simp_all add: LONG_MIN_def LONG_MAX_def)
  then have "(n + 2147483648) mod 4294967296 = n + 2147483648"
    by (rule mod_pos_pos_trivial)
  then show ?thesis by (simp add: wrap_long_def)
qed

lemma wrap_long_range: "LONG_MIN \<le> wrap_long n \<and> wrap_long n \<le> LONG_MAX"
proof -
  have "0 \<le> (n + 2147483648) mod 4294967296" "(n + 2147483648) mod 4294967296 < 4294967296"
    by simp_all
  then show ?thesis by (simp add: wrap_long_def LONG_MIN_def LONG_MAX_def)
qed

text \<open>Narrowing a value of \<open>long\<close> to an \<open>int\<close> of the same width changes nothing.\<close>

lemma long_to_int_wrap_long: "long_to_int (wrap_long n) = wrap_long n"
proof -
  have "long_to_int m = wrap_long m" for m
    by (simp add: long_to_int_def wrap_long_def)
  moreover have "wrap_long (wrap_long n) = wrap_long n"
    using wrap_long_range [of n] by (intro wrap_long_id) simp_all
  ultimately show ?thesis by simp
qed

lemma long_to_int_quantize: "long_to_int (quantize x) = quantize x"
  by (simp add: quantize_def long_to_int_wrap_long)

text \<open>Within the range of \<open>long\<close> the rounding of line 103 does not overflow.\<close>

lemma arduino_round_fifth_bounds:
  assumes "\<bar>x\<bar> \<le> 2147483647"
  shows "- 429496729 \<le> arduino_round (x / 5) \<and> arduino_round (x / 5) \<le> 429496729"
proof (cases "0 \<le> x")
  case True
  with assms have "0 \<le> \<lfloor>x / 5 + 1 / 2\<rfloor>" "\<lfloor>x / 5 + 1 / 2\<rfloor> \<le> 429496729"
    by linarith+
  with True show ?thesis by (simp add: arduino_round_def float_to_int_def)
next
  case False
  with assms have "- 429496729 \<le> \<lceil>x / 5 - 1 / 2\<rceil>" "\<lceil>x / 5 - 1 / 2\<rceil> \<le> 0"
    by linarith+
  with False show ?thesis by (simp add: arduino_round_def float_to_int_def)
qed

lemma quantize_exact:
  assumes "\<bar>x\<bar> \<le> 2147483647"
  shows "quantize x = arduino_round (x / 5) * 5"
proof -
  from arduino_round_fifth_bounds [OF assms]
  have "LONG_MIN \<le> arduino_round (x / 5) * 5" "arduino_round (x / 5) * 5 \<le> LONG_MAX"
    by (simp_all add: LONG_MIN_def LONG_MAX_def)
  then show ?thesis unfolding quantize_def by (rule wrap_long_id)
qed


lemma float_to_int_near: "\<bar>of_int (float_to_int x) - x\<bar> < 1"
  unfolding float_to_int_def by (cases "0 \<le> x") (simp_all, linarith+)


text \<open>On the range of the sensor the rounded value is a multiple of 5 of the same range.\<close>

lemma quantize_sensor_range:
  assumes "0 \<le> x" "x \<le> 100"
  shows "0 \<le> quantize x \<and> quantize x \<le> 100 \<and> 5 dvd quantize x"
proof -
  have e: "quantize x = arduino_round (x / 5) * 5"
    using assms by (intro quantize_exact) simp
  have "\<lfloor>x / 5 + 1 / 2\<rfloor> \<le> 20" "0 \<le> \<lfloor>x / 5 + 1 / 2\<rfloor>"
    using assms by linarith+
  with assms show ?thesis
    unfolding e by (simp add: arduino_round_def float_to_int_def)
qed

text \<open>
  A steady cycle stores the rounded reading, shows the power of the rounded reading and
  issues one stepper command.
\<close>

lemma loop_steady:
  assumes "h_avant g \<noteq> - 1"
  shows "snd (loop bme g) = g\<lparr>h_avant := quantize (readHumidity bme)\<rparr>"
    and "stepper_steps (fst (loop bme g))
           = [rotationMoteur g (quantize (readHumidity bme)) * ROTATION_STEP]"
    and "hd (fst (loop bme g))
           = AffichageEcranOLED (readTemperature bme) (readHumidity bme)
               (readPressure bme / 100) (puissanceMoteur (quantize (readHumidity bme)))"
  using assms long_to_int_quantize [of "readHumidity bme"]
  by (simp_all add: loop_def Let_def quantize_def)

text \<open>
  The constant \<open>16.67\<close> is stored as a binary \<open>float\<close> and the product is computed in
  floating point, so the machine value of \<open>k * PERCENT_POWER_STEP\<close> is only close to the
  real product. Any value within a hundredth of it rounds to the same integer.
\<close>

lemma arduino_round_eqI:
  assumes "of_int n - 1 / 2 < y" "y < of_int n + 1 / 2"
  shows "arduino_round y = n"
proof (cases "0 \<le> y")
  case True
  from assms have "\<lfloor>y + 1 / 2\<rfloor> = n" by linarith
  with True show ?thesis by (simp add: arduino_round_def float_to_int_def)
next
  case False
  from assms have "\<lceil>y - 1 / 2\<rceil> = n" by linarith
  with False show ?thesis by (simp add: arduino_round_def float_to_int_def)
qed

lemma power_of_step_tolerance:
  assumes "k \<in> {0, 1, 2, 3, 4, 5}" "\<bar>y - of_int k * PERCENT_POWER_STEP\<bar> \<le> 1 / 100"
  shows "arduino_round y = arduino_round (of_int k * PERCENT_POWER_STEP)"
proof -
  from assms(2) have b:
    "of_int k * (1667 / 100) - 1 / 100 \<le> y" "y \<le> of_int k * (1667 / 100) + 1 / 100"
    unfolding PERCENT_POWER_STEP_def by linarith+
  have t: "arduino_round (of_int k * PERCENT_POWER_STEP) = [0, 17, 33, 50, 67, 83] ! nat k"
    using assms(1) power_of_step by (elim insertE emptyE) simp_all
  have "arduino_round y = [0, 17, 33, 50, 67, 83] ! nat k"
    using assms(1)
  proof (elim insertE emptyE)
    assume "k = 0" with b show ?thesis by (intro arduino_round_eqI) simp_all
  next
    assume "k = 1" with b show ?thesis by (intro arduino_round_eqI) simp_all
  next
    assume "k = 2" with b show ?thesis by (intro arduino_round_eqI) simp_all
  next
    assume "k = 3" with b show ?thesis by (intro arduino_round_eqI) simp_all
  next
    assume "k = 4" with b show ?thesis by (intro arduino_round_eqI) simp_all
  next
    assume "k = 5" with b show ?thesis by (intro arduino_round_eqI) simp_all
  qed
  with t show ?thesis by simp
qed

lemma mult5_not_in_gap: "5 dvd h \<Longrightarrow> h \<notin> {51..54::int}"
  by (simp, presburger)

lemma position_spec_mult5:
  assumes "5 dvd h"
  shows "positionMoteur h = position_spec h"
proof -
  from assms obtain k where h: "h = 5 * k" ..
  have "((of_int (5 * k) - 50) / 5 :: real) = of_int (k - 10)" by simp
  then have "round ((of_int h - 50) / 5 :: real) = k - 10"
    unfolding h by (simp only: round_of_int)
  moreover have "(h - 50) div 5 = k - 10" unfolding h by simp
  ultimately show ?thesis by (simp add: positionMoteur_cases position_spec_def)
qed

text \<open>Taking the quotient in the reals before scaling gives another power, for instance at 53.\<close>

lemma puissanceMoteur_real_quotient_differs:
  "arduino_round ((53 - 50) / 5 * PERCENT_POWER_STEP) = 10 \<and> puissanceMoteur 53 = 0"
  by (simp add: puissanceMoteur_bands arduino_round_def float_to_int_def PERCENT_POWER_STEP_def)

section \<open>The power level\<close>

text \<open>
  Claim C1. For every humidity \<open>h\<close> of the valid domain, the rounded humidities (multiples
  of 5) of \<open>[0, 100]\<close>, \<open>puissanceMoteur h\<close> lies in \<open>[MIN_POWER, 100]\<close>, that is in
  \<open>[17, 100]\<close>, and \<open>puissanceMoteur\<close> is non-decreasing in \<open>h\<close> over that domain. The only
  call of \<open>puissanceMoteur\<close>, on line 106, passes such a value for every reading of
  \<open>[0, 100]\<close> (lemmas \<open>loop_steady\<close> and \<open>quantize_sensor_range\<close>).
\<close>

theorem puissanceMoteur_bounds_mono:
  "(0 \<le> h \<and> h \<le> 100 \<and> 5 dvd h
      \<longrightarrow> MIN_POWER \<le> puissanceMoteur h \<and> puissanceMoteur h \<le> 100 \<and> MIN_POWER = 17)
   \<and> (0 \<le> h1 \<and> h1 \<le> h2 \<and> h2 \<le> 100 \<and> 5 dvd h1 \<and> 5 dvd h2
      \<longrightarrow> puissanceMoteur h1 \<le> puissanceMoteur h2)"
proof -
  have g: "x \<notin> {51..54}" if "5 dvd x" for x :: int
    using that by (rule mult5_not_in_gap)
  have "MIN_POWER \<le> puissanceMoteur h \<and> puissanceMoteur h \<le> 100 \<and> MIN_POWER = 17"
    if "0 \<le> h" "h \<le> 100" "5 dvd h"
    using that g [of h] by (auto simp add: puissanceMoteur_bands MIN_POWER_def)
  moreover have "puissanceMoteur h1 \<le> puissanceMoteur h2"
    if "0 \<le> h1" "h1 \<le> h2" "h2 \<le> 100" "5 dvd h1" "5 dvd h2"
    using that g [of h1] g [of h2] by (auto simp add: puissanceMoteur_bands)
  ultimately show ?thesis by blast
qed

theorem puissanceMoteur_bounds_mono_witness:
  "(0::int) \<le> 55 \<and> (55::int) \<le> 100 \<and> 5 dvd (55::int)
   \<and> MIN_POWER \<le> puissanceMoteur 55 \<and> puissanceMoteur 55 \<le> 100
   \<and> (0::int) \<le> 50 \<and> (50::int) \<le> 60 \<and> (60::int) \<le> 100
   \<and> 5 dvd (50::int) \<and> 5 dvd (60::int)
   \<and> puissanceMoteur 50 \<le> puissanceMoteur 60"
  using puissanceMoteur_bounds_mono [of 55 50 60] by simp

text \<open>
  Claim C5. For every integer \<open>h\<close> strictly between the two thresholds,
  \<open>puissanceMoteur h\<close> is the rounding of \<open>((h - 50) div 5) * 16.67\<close>, where the quotient is
  the integer one, taken before the multiplication: the power only depends on the number of
  whole steps of 5 above 50 and takes the values 0, 17, 33, 50, 67, 83.
\<close>

theorem puissanceMoteur_truncating:
  assumes "MIN_RATE_POWER < h" "h < MAX_RATE_POWER"
  shows "puissanceMoteur h = arduino_round (of_int ((h - 50) div 5) * (1667 / 100))
         \<and> puissanceMoteur h = [0, 17, 33, 50, 67, 83] ! nat ((h - 50) div 5)"
proof -
  from assms have b: "50 < h" "h < 80" by (simp_all add: constants_defs)
  then have k: "(h - 50) div 5 \<in> {0, 1, 2, 3, 4, 5}" by auto
  have m: "puissanceMoteur h = arduino_round (of_int ((h - 50) div 5) * PERCENT_POWER_STEP)"
    using b by (rule puissanceMoteur_mid)
  have t: "arduino_round (of_int ((h - 50) div 5) * PERCENT_POWER_STEP)
             = [0, 17, 33, 50, 67, 83] ! nat ((h - 50) div 5)"
    using k power_of_step by (elim insertE emptyE) simp_all
  show ?thesis using m t by (simp add: PERCENT_POWER_STEP_def)
qed

theorem puissanceMoteur_truncating_witness:
  "MIN_RATE_POWER < 64 \<and> 64 < MAX_RATE_POWER
   \<and> puissanceMoteur 64 = arduino_round (of_int ((64 - 50) div 5) * (1667 / 100))
   \<and> puissanceMoteur 64 = 33"
  using puissanceMoteur_truncating [of 64] by (simp add: constants_defs)

text \<open>
  Claim C10. For every negative integer \<open>h\<close>, \<open>puissanceMoteur h\<close> is \<open>MIN_POWER\<close>, that is
  17: the power has no branch for the invalid reading, which falls into the branch
  \<open>h \<le> 50\<close>, whereas \<open>positionMoteur\<close> answers \<open>-1\<close> there.
\<close>

theorem puissanceMoteur_negative:
  assumes "h < 0"
  shows "puissanceMoteur h = MIN_POWER \<and> MIN_POWER = 17 \<and> positionMoteur h = - 1"
  using assms by (simp add: puissanceMoteur_def positionMoteur_def constants_defs)

theorem puissanceMoteur_negative_witness:
  "(- 5 :: int) < 0 \<and> puissanceMoteur (- 5) = MIN_POWER \<and> MIN_POWER = 17
   \<and> positionMoteur (- 5) = - 1"
  using puissanceMoteur_negative [of "- 5"] by simp

section \<open>The position\<close>

text \<open>
  Claim C3. For every integer \<open>h\<close>, \<open>positionMoteur h\<close> should be \<open>-1\<close> if \<open>h < 0\<close>, 0 if
  \<open>0 \<le> h \<le> 50\<close>, 6 if \<open>h \<ge> 80\<close> and otherwise the quotient \<open>(h - 50) / 5\<close> rounded to
  the nearest integer. The program does not do this between the thresholds: line 138 calls
  \<open>round\<close> on a quotient of two \<open>int\<close>s, which C has already truncated. At 53 the program
  answers 0 where the rounded quotient is 1. The value 53 reaches \<open>positionMoteur\<close> through
  \<open>h_avant\<close>: a first reading of 53 is stored as it is, and with a second reading of 65 the
  stepper is commanded by \<open>-3 * 165\<close>, three steps instead of the two between the positions
  1 and 3.
\<close>

theorem positionMoteur_integer_division:
  "positionMoteur 53 = 0 \<and> position_spec 53 = 1
   \<and> snd (loop \<lparr>readTemperature = 12, readHumidity = 53, readPressure = 101300\<rparr>
             initial_globals) = \<lparr>h_avant = 53\<rparr>
   \<and> stepper_steps (fst (loop \<lparr>readTemperature = 12, readHumidity = 65, readPressure = 101300\<rparr>
                              \<lparr>h_avant = 53\<rparr>)) = [- 495]
   \<and> - (position_spec 65 - position_spec 53) * ROTATION_STEP = - 330"
proof -
  have q: "quantize 65 = 65"
    by (simp add: quantize_def wrap_long_def arduino_round_def float_to_int_def)
  have f: "snd (loop \<lparr>readTemperature = 12, readHumidity = 53, readPressure = 101300\<rparr>
             initial_globals) = \<lparr>h_avant = 53\<rparr>"
    by (simp add: loop_def initial_globals_def float_to_int_def)
  have r: "rotationMoteur \<lparr>h_avant = 53\<rparr> 65 = - 3"
    by (simp add: rotationMoteur_def positionMoteur_cases)
  have p: "position_spec 53 = 1" "position_spec 65 = 3"
    by (simp_all add: position_spec_def round_def)
  show ?thesis
    using f p by (simp add: loop_steady q r positionMoteur_cases ROTATION_STEP_def)
qed

text \<open>
  Claim C4. For every integer \<open>h\<close> in \<open>[0, 100]\<close>, \<open>positionMoteur h\<close> lies in
  \<open>[0, NB_STEPS]\<close>, and \<open>positionMoteur\<close> is non-decreasing over that range.
\<close>

theorem positionMoteur_range_mono:
  "(0 \<le> h \<and> h \<le> 100 \<longrightarrow> 0 \<le> positionMoteur h \<and> positionMoteur h \<le> NB_STEPS)
   \<and> (0 \<le> h1 \<and> h1 \<le> h2 \<and> h2 \<le> 100 \<longrightarrow> positionMoteur h1 \<le> positionMoteur h2)"
  by (simp add: positionMoteur_cases NB_STEPS_def, linarith)

theorem positionMoteur_range_mono_witness:
  "(0::int) \<le> 72 \<and> (72::int) \<le> 100 \<and> 0 \<le> positionMoteur 72 \<and> positionMoteur 72 \<le> NB_STEPS
   \<and> (0::int) \<le> 53 \<and> (53::int) \<le> 91 \<and> (91::int) \<le> 100
   \<and> positionMoteur 53 \<le> positionMoteur 91"
  using positionMoteur_range_mono [of 72 53 91] by simp

section \<open>The rotation\<close>

text \<open>
  Claim C6. Whenever the current or the previous humidity has the invalid position \<open>-1\<close>,
  which means that it is negative, \<open>rotationMoteur\<close> returns 0, and the steady cycle that
  computes it commands a stepper move of 0 steps.
\<close>

theorem rotationMoteur_invalid:
  assumes "positionMoteur h = - 1 \<or> positionMoteur (h_avant g) = - 1"
  shows "(h < 0 \<or> h_avant g < 0) \<and> rotationMoteur g h = 0
         \<and> (h_avant g \<noteq> - 1 \<and> h = quantize (readHumidity bme)
              \<longrightarrow> stepper_steps (fst (loop bme g)) = [0])"
proof -
  have neg: "h < 0 \<or> h_avant g < 0"
    using assms by (auto simp add: positionMoteur_cases split: if_splits)
  then have pos: "positionMoteur h < 0 \<or> positionMoteur (h_avant g) < 0"
    by (auto simp add: positionMoteur_cases)
  then have rot: "rotationMoteur g h = 0"
    by (auto simp add: rotationMoteur_def Let_def)
  have "stepper_steps (fst (loop bme g)) = [0]"
    if "h_avant g \<noteq> - 1" "h = quantize (readHumidity bme)"
    using that rot loop_steady(2) [of g bme] by simp
  with neg rot show ?thesis by blast
qed

theorem rotationMoteur_invalid_witness:
  "(positionMoteur (- 5) = - 1 \<or> positionMoteur (h_avant \<lparr>h_avant = 70\<rparr>) = - 1)
   \<and> rotationMoteur \<lparr>h_avant = 70\<rparr> (- 5) = 0
   \<and> h_avant \<lparr>h_avant = 70\<rparr> \<noteq> - 1
   \<and> - 5 = quantize (readHumidity \<lparr>readTemperature = 12, readHumidity = - 5, readPressure = 101300\<rparr>)
   \<and> stepper_steps (fst (loop \<lparr>readTemperature = 12, readHumidity = - 5, readPressure = 101300\<rparr>
                              \<lparr>h_avant = 70\<rparr>)) = [0]"
proof -
  have p: "positionMoteur (- 5) = - 1 \<or> positionMoteur (h_avant \<lparr>h_avant = 70\<rparr>) = - 1"
    by (simp add: positionMoteur_cases)
  have q: "- 5 = quantize (readHumidity \<lparr>readTemperature = 12, readHumidity = - 5, readPressure = 101300\<rparr>)"
    by (simp add: quantize_def wrap_long_def arduino_round_def float_to_int_def)
  show ?thesis
    using p q rotationMoteur_invalid [OF p,
        of "\<lparr>readTemperature = 12, readHumidity = - 5, readPressure = 101300\<rparr>"]
    by simp
qed

text \<open>
  Claim C7. When the current and the previous humidity are both non-negative, so that both
  positions are valid, \<open>rotationMoteur\<close> returns the negated difference of the positions, and
  exchanging the current and the previous humidity negates the result.
\<close>

theorem rotationMoteur_antisym:
  assumes "0 \<le> h" "0 \<le> h_avant g"
  shows "rotationMoteur g h = - (positionMoteur h - positionMoteur (h_avant g))
         \<and> rotationMoteur (g\<lparr>h_avant := h\<rparr>) (h_avant g) = - rotationMoteur g h"
proof -
  have "0 \<le> positionMoteur h" "0 \<le> positionMoteur (h_avant g)"
    using assms by (simp_all add: positionMoteur_cases pos_imp_zdiv_nonneg_iff)
  then show ?thesis by (simp add: rotationMoteur_def Let_def)
qed

theorem rotationMoteur_antisym_witness:
  "(0::int) \<le> 75 \<and> 0 \<le> h_avant \<lparr>h_avant = 60\<rparr>
   \<and> rotationMoteur \<lparr>h_avant = 60\<rparr> 75 = - 3
   \<and> rotationMoteur \<lparr>h_avant = 75\<rparr> 60 = 3"
  using rotationMoteur_antisym [of 75 "\<lparr>h_avant = 60\<rparr>"]
  by (simp add: positionMoteur_cases)

text \<open>
  Claim C8. With the previous rounded humidity 50 (position 0) and the current one 80
  (position 6), \<open>rotationMoteur\<close> returns \<open>-6\<close>, and the cycle commands the stepper by
  \<open>-6 * ROTATION_STEP = -990\<close>, whose magnitude is \<open>ROTATION_MAX\<close>.
\<close>

theorem scenario_E:
  "positionMoteur 50 = 0 \<and> positionMoteur 80 = 6
   \<and> rotationMoteur \<lparr>h_avant = 50\<rparr> 80 = - 6
   \<and> rotationMoteur \<lparr>h_avant = 50\<rparr> 80 * ROTATION_STEP = - 990
   \<and> \<bar>rotationMoteur \<lparr>h_avant = 50\<rparr> 80 * ROTATION_STEP\<bar> = ROTATION_MAX
   \<and> stepper_steps (fst (loop \<lparr>readTemperature = t, readHumidity = 80, readPressure = p\<rparr>
                              \<lparr>h_avant = 50\<rparr>)) = [- 990]"
proof -
  have q: "quantize 80 = 80"
    by (simp add: quantize_def wrap_long_def arduino_round_def float_to_int_def)
  have r: "rotationMoteur \<lparr>h_avant = 50\<rparr> 80 = - 6"
    by (simp add: rotationMoteur_def positionMoteur_cases)
  show ?thesis
    by (simp add: loop_steady q r positionMoteur_cases ROTATION_STEP_def ROTATION_MAX_def)
qed

section \<open>The control loop\<close>

text \<open>
  Claim C2, as amended. On the first cycle (\<open>h_avant\<close> is \<open>-1\<close>) the loop stores the
  humidity reading converted to \<open>int\<close>, its fractional part dropped and not rounded to a
  multiple of 5, clears the display and commands no stepper move; after a non-negative
  reading the loop is no longer in its first-cycle state.
\<close>

theorem loop_first_cycle:
  assumes "uninitialized g"
  shows "loop bme g = ([ClearDisplay], g\<lparr>h_avant := float_to_int (readHumidity bme)\<rparr>)
         \<and> stepper_steps (fst (loop bme g)) = []
         \<and> (uninitialized (snd (loop bme g)) \<longleftrightarrow> float_to_int (readHumidity bme) = - 1)
         \<and> (0 \<le> readHumidity bme \<longrightarrow> \<not> uninitialized (snd (loop bme g)))"
proof -
  have "float_to_int (readHumidity bme) \<noteq> - 1" if "0 \<le> readHumidity bme"
  proof -
    from that have "\<lfloor>readHumidity bme\<rfloor> \<noteq> - 1" by linarith
    with that show ?thesis unfolding float_to_int_def by simp
  qed
  with assms show ?thesis by (auto simp add: loop_def uninitialized_def)
qed

theorem loop_first_cycle_witness:
  "uninitialized initial_globals
   \<and> loop \<lparr>readTemperature = 12, readHumidity = 537 / 10, readPressure = 101300\<rparr> initial_globals
       = ([ClearDisplay], \<lparr>h_avant = 53\<rparr>)
   \<and> (0::real) \<le> 537 / 10
   \<and> \<not> uninitialized
         (snd (loop \<lparr>readTemperature = 12, readHumidity = 537 / 10, readPressure = 101300\<rparr>
                initial_globals))"
proof -
  have u: "uninitialized initial_globals"
    by (simp add: uninitialized_def initial_globals_def)
  show ?thesis
    using u loop_first_cycle [OF u,
        of "\<lparr>readTemperature = 12, readHumidity = 537 / 10, readPressure = 101300\<rparr>"]
    by (simp add: float_to_int_def initial_globals_def uninitialized_def)
qed

text \<open>
  Claim C2 as first stated fails for a first reading of 53: the loop stores 53, and the
  nearest multiple of 5 is 55.
\<close>

theorem loop_first_cycle_counterexample:
  "uninitialized initial_globals
   \<and> h_avant (snd (loop \<lparr>readTemperature = 12, readHumidity = 53, readPressure = 101300\<rparr>
                    initial_globals)) = 53
   \<and> quantize 53 = 55"
  by (simp add: loop_def initial_globals_def uninitialized_def quantize_def wrap_long_def
      arduino_round_def float_to_int_def)




end
